theory Spec2Isabelle
  imports Main "HOL-Library.Sublist"
begin

section \<open>JavaScript values, thrown values and strings\<close>

text \<open>
  The TypeScript sources work on \<open>any\<close>-typed cells, on strings and on thrown values.
  Numbers are modelled as \<open>int\<close> (the sources only count and index with them),
  strings as \<open>string\<close>. The sources' Portuguese messages are written without their
  accents, since a \<open>string\<close> literal holds ASCII characters only.
  \<open>Inherited p\<close> is the value of the property \<open>p\<close> that every plain object
  inherits from \<open>Object.prototype\<close> (a function, or the prototype itself for
  \<open>__proto__\<close>).
\<close>

datatype js = Undefined | Null | Bool bool | Num int | Str string | Inherited string

text \<open>What \<open>if (v)\<close>, \<open>v || d\<close> and \<open>Array.prototype.some\<close> take as true.\<close>

fun truthy :: "js \<Rightarrow> bool" where
  "truthy Undefined = False"
| "truthy Null = False"
| "truthy (Bool b) = b"
| "truthy (Num n) = (n \<noteq> 0)"
| "truthy (Str s) = (s \<noteq> [])"
| "truthy (Inherited p) = True"

text \<open>
  A thrown value: an \<open>Error\<close> object with its message, a \<open>TypeError\<close> (which is an
  instance of \<open>Error\<close> too), or some other value, kept as what \<open>String(v)\<close> gives.
  \<open>message\<close> is the \<open>message\<close> property of an \<open>Error\<close>; the sources read it from
  other values only through \<open>message_property\<close> below.
\<close>

datatype thrown = Error string | TypeError string | NonError string

fun instanceof_Error :: "thrown \<Rightarrow> bool" where
  "instanceof_Error (Error m) = True"
| "instanceof_Error (TypeError m) = True"
| "instanceof_Error (NonError s) = False"

fun message :: "thrown \<Rightarrow> string" where
  "message (Error m) = m"
| "message (TypeError m) = m"
| "message (NonError s) = []"

fun String :: "thrown \<Rightarrow> string" where
  "String (Error m) = ''Error: '' @ m"
| "String (TypeError m) = ''TypeError: '' @ m"
| "String (NonError s) = s"

text \<open>
  The expression \<open>error instanceof Error ? error.message : String(error)\<close>, which the
  sources repeat in every catch block.
\<close>

definition errorMessage :: "thrown \<Rightarrow> string" where
  "errorMessage error = (if instanceof_Error error then message error else String error)"

text \<open>\<open>s.includes(sub)\<close>: \<open>sub\<close> occurs in \<open>s\<close> as a contiguous run.\<close>

primrec js_includes :: "string \<Rightarrow> string \<Rightarrow> bool" where
  "js_includes [] sub = (sub = [])"
| "js_includes (c # cs) sub = (prefix sub (c # cs) \<or> js_includes cs sub)"

text \<open>Decimal text of a number, as a template literal \<open>`${n}`\<close> prints it.\<close>

fun string_of_nat :: "nat \<Rightarrow> string" where
  "string_of_nat n =
     (if n < 10 then [char_of (48 + n)]
      else string_of_nat (n div 10) @ [char_of (48 + n mod 10)])"

declare string_of_nat.simps [simp del]

definition string_of_int :: "int \<Rightarrow> string" where
  "string_of_int k = (if k < 0 then ''-'' @ string_of_nat (nat (- k)) else string_of_nat (nat k))"

fun join :: "string \<Rightarrow> string list \<Rightarrow> string" where
  "join sep [] = []"
| "join sep [x] = x"
| "join sep (x # y # ys) = x @ sep @ join sep (y # ys)"

definition quote :: string where
  "quote = [CHR 0x27]"

text \<open>
  \<open>xs.findIndex(p)\<close> (-1 when nothing matches), \<open>xs.slice(a, b)\<close> and
  \<open>xs.splice(a, 1)\<close> with JavaScript's treatment of negative and too large indices.
\<close>

fun findIndex :: "('a \<Rightarrow> bool) \<Rightarrow> 'a list \<Rightarrow> int" where
  "findIndex p [] = -1"
| "findIndex p (x # xs) =
     (if p x then 0 else (let k = findIndex p xs in if k < 0 then -1 else k + 1))"

definition clamp_index :: "int \<Rightarrow> 'a list \<Rightarrow> nat" where
  "clamp_index a xs =
     (let n = int (length xs) in nat (if a < 0 then max (n + a) 0 else min a n))"

definition js_slice :: "int \<Rightarrow> int \<Rightarrow> 'a list \<Rightarrow> 'a list" where
  "js_slice a b xs = take (clamp_index b xs - clamp_index a xs) (drop (clamp_index a xs) xs)"

definition js_splice1 :: "int \<Rightarrow> 'a list \<Rightarrow> 'a list" where
  "js_splice1 a xs = take (clamp_index a xs) xs @ drop (Suc (clamp_index a xs)) xs"

section \<open>The connection\<close>

text \<open>
  The \<open>oracledb\<close> connection is an external collaborator. A call is what the sources
  pass to it; a driver answers a call from a hidden state of its own, either returning
  a result or throwing. The world keeps the driver's state, the log of the calls sent
  so far and the clock that \<open>Date.now()\<close> and \<open>new Date()\<close> read; only \<open>sleep\<close> moves
  the clock in this model. Console output is not modelled.
\<close>

datatype binds = Positional "js list" | Named "(string \<times> js) list"

record ExecuteManyOptions =
  em_autoCommit :: bool
  em_batchErrors :: bool
  em_bindDefs :: js
  em_dmlRowCounts :: "bool option"

datatype call =
    Execute string "binds option" "bool option"
  | ExecuteMany string "binds list" ExecuteManyOptions
  | Commit
  | Rollback

text \<open>
  An entry of \<open>result.batchErrors\<close>: its \<open>offset\<close> and what \<open>.error?.message\<close> reads
  (\<open>None\<close> for \<open>undefined\<close>).
\<close>

record DbBatchError =
  offset :: "int option"
  error_message :: "string option"

record ExecResult =
  rowsAffected :: "int option"
  batchErrors :: "DbBatchError list option"

datatype reply = Returns ExecResult | Throws thrown

type_synonym 'c driver = "call \<Rightarrow> 'c \<Rightarrow> reply \<times> 'c"

record 'c world =
  conn :: 'c
  sent :: "call list"
  now :: nat

definition conn_call :: "'c driver \<Rightarrow> call \<Rightarrow> ('c, 'z) world_scheme \<Rightarrow> reply \<times> ('c, 'z) world_scheme" where
  "conn_call d c w =
     (case d c (conn w) of (r, c') \<Rightarrow> (r, w\<lparr>conn := c', sent := sent w @ [c]\<rparr>))"

definition sleep :: "int \<Rightarrow> ('c, 'z) world_scheme \<Rightarrow> ('c, 'z) world_scheme" where
  "sleep ms w = w\<lparr>now := now w + nat ms\<rparr>"

text \<open>
  A driver that answers from a script, whatever the call: the state is the list of
  replies still to give, and an empty script answers with a plain success.
\<close>

definition ok_result :: ExecResult where
  "ok_result = \<lparr>rowsAffected = None, batchErrors = None\<rparr>"

fun scripted :: "reply list driver" where
  "scripted c [] = (Returns ok_result, [])"
| "scripted c (r # rs) = (r, rs)"

section \<open>TransactionManager (src/unnamed/part\_002)\<close>

datatype isolation = READ_COMMITTED | SERIALIZABLE | READ_ONLY

text \<open>The options as the constructor leaves them, defaults filled in.\<close>

record TransactionOptions =
  isolation :: isolation
  timeout :: int
  autoRollbackOnError :: bool
  maxRetries :: int
  retryDelay :: int

definition default_options :: TransactionOptions where
  "default_options =
     \<lparr>isolation = READ_COMMITTED, timeout = 300, autoRollbackOnError = True,
      maxRetries = 3, retryDelay = 1000\<rparr>"

record SavepointInfo =
  name :: string
  timestamp :: nat
  description :: "string option"

record 'c TransactionManager = "'c world" +
  savepoints :: "SavepointInfo list"
  transactionStartTime :: "nat option"
  isTransactionActive :: bool
  retryCount :: int

definition new_TransactionManager :: "'c world \<Rightarrow> 'c TransactionManager" where
  "new_TransactionManager w =
     \<lparr>conn = conn w, sent = sent w, now = now w,
      savepoints = [], transactionStartTime = None, isTransactionActive = False,
      retryCount = 0\<rparr>"

definition isolationMap :: "isolation \<Rightarrow> string" where
  "isolationMap level =
     (case level of READ_COMMITTED \<Rightarrow> ''READ COMMITTED''
      | SERIALIZABLE \<Rightarrow> ''SERIALIZABLE''
      | READ_ONLY \<Rightarrow> ''READ ONLY'')"

definition setIsolationLevel ::
  "'c driver \<Rightarrow> isolation \<Rightarrow> 'c TransactionManager \<Rightarrow> (thrown + unit) \<times> 'c TransactionManager" where
  "setIsolationLevel d level s =
     (case conn_call d (Execute (''SET TRANSACTION ISOLATION LEVEL '' @ isolationMap level) None None) s of
        (Throws e, s1) \<Rightarrow> (Inl e, s1)
      | (Returns r, s1) \<Rightarrow> (Inr (), s1))"

text \<open>
  \<open>setTransactionTimeout\<close> only arms a timer whose callback prints a warning: it
  changes nothing of the state modelled here.
\<close>

definition setTransactionTimeout :: "int \<Rightarrow> 'c TransactionManager \<Rightarrow> 'c TransactionManager" where
  "setTransactionTimeout timeoutSeconds s = s"

definition beginTransaction ::
  "TransactionOptions \<Rightarrow> 'c driver \<Rightarrow> 'c TransactionManager \<Rightarrow> (thrown + unit) \<times> 'c TransactionManager" where
  "beginTransaction opts d s =
     (if isTransactionActive s then
        (Inl (Error ''Transacao ja esta ativa. Use commit() ou rollback() primeiro.''), s)
      else
        (case (if isolation opts \<noteq> READ_COMMITTED then setIsolationLevel d (isolation opts) s
               else (Inr (), s)) of
           (Inl e, s1) \<Rightarrow> (Inl (Error (''Falha ao iniciar transacao: '' @ errorMessage e)), s1)
         | (Inr u, s1) \<Rightarrow>
             (let s2 = (if timeout opts \<noteq> 0 then setTransactionTimeout (timeout opts) s1 else s1)
              in (Inr (), s2\<lparr>transactionStartTime := Some (now s2),
                             isTransactionActive := True, retryCount := 0\<rparr>))))"

text \<open>The test \<open>/^[a-zA-Z][a-zA-Z0-9_]*$/.test(name) && name.length <= 30\<close>.\<close>

definition is_letter :: "char \<Rightarrow> bool" where
  "is_letter c =
     (let k = (of_char c :: nat) in (65 \<le> k \<and> k \<le> 90) \<or> (97 \<le> k \<and> k \<le> 122))"

definition is_word_char :: "char \<Rightarrow> bool" where
  "is_word_char c =
     (let k = (of_char c :: nat) in is_letter c \<or> (48 \<le> k \<and> k \<le> 57) \<or> k = 95)"

definition isValidSavepointName :: "string \<Rightarrow> bool" where
  "isValidSavepointName nm =
     ((case nm of [] \<Rightarrow> False | c # cs \<Rightarrow> is_letter c \<and> list_all is_word_char cs)
      \<and> length nm \<le> 30)"

definition createSavepoint ::
  "'c driver \<Rightarrow> string \<Rightarrow> string option \<Rightarrow> 'c TransactionManager \<Rightarrow> (thrown + unit) \<times> 'c TransactionManager" where
  "createSavepoint d nm descr s =
     (if \<not> isTransactionActive s then
        (Inl (Error ''Nenhuma transacao ativa para criar savepoint''), s)
      else if \<not> isValidSavepointName nm then
        (Inl (Error ''Nome do savepoint invalido. Use apenas letras, numeros e underscore.''), s)
      else if find (\<lambda>sp. name sp = nm) (savepoints s) \<noteq> None then
        (Inl (Error (''Savepoint '' @ quote @ nm @ quote @ '' ja existe'')), s)
      else
        (case conn_call d (Execute (''SAVEPOINT '' @ nm) None None) s of
           (Throws e, s1) \<Rightarrow>
             (Inl (Error (''Falha ao criar savepoint '' @ quote @ nm @ quote @ '': '' @ errorMessage e)), s1)
         | (Returns r, s1) \<Rightarrow>
             (Inr (), s1\<lparr>savepoints := savepoints s1 @
                 [\<lparr>name = nm, timestamp = now s1, description = descr\<rparr>]\<rparr>)))"

definition rollbackToSavepoint ::
  "'c driver \<Rightarrow> string \<Rightarrow> 'c TransactionManager \<Rightarrow> (thrown + unit) \<times> 'c TransactionManager" where
  "rollbackToSavepoint d nm s =
     (if \<not> isTransactionActive s then
        (Inl (Error ''Nenhuma transacao ativa para rollback''), s)
      else
        (case find (\<lambda>sp. name sp = nm) (savepoints s) of
           None \<Rightarrow> (Inl (Error (''Savepoint '' @ quote @ nm @ quote @ '' nao encontrado'')), s)
         | Some savepoint \<Rightarrow>
             (case conn_call d (Execute (''ROLLBACK TO SAVEPOINT '' @ nm) None None) s of
                (Throws e, s1) \<Rightarrow>
                  (Inl (Error (''Falha no rollback para savepoint '' @ quote @ nm @ quote @ '': ''
                               @ errorMessage e)), s1)
              | (Returns r, s1) \<Rightarrow>
                  (let savepointIndex = findIndex (\<lambda>sp. name sp = nm) (savepoints s1)
                   in (Inr (), s1\<lparr>savepoints := js_slice 0 (savepointIndex + 1) (savepoints s1)\<rparr>)))))"

definition releaseSavepoint ::
  "string \<Rightarrow> 'c TransactionManager \<Rightarrow> (thrown + unit) \<times> 'c TransactionManager" where
  "releaseSavepoint nm s =
     (if \<not> isTransactionActive s then (Inl (Error ''Nenhuma transacao ativa''), s)
      else
        (let savepointIndex = findIndex (\<lambda>sp. name sp = nm) (savepoints s)
         in if savepointIndex = -1 then
              (Inl (Error (''Savepoint '' @ quote @ nm @ quote @ '' nao encontrado'')), s)
            else (Inr (), s\<lparr>savepoints := js_splice1 savepointIndex (savepoints s)\<rparr>)))"

definition cleanupTransaction :: "'c TransactionManager \<Rightarrow> 'c TransactionManager" where
  "cleanupTransaction s =
     s\<lparr>isTransactionActive := False, transactionStartTime := None, savepoints := [],
       retryCount := 0\<rparr>"

definition rollback ::
  "'c driver \<Rightarrow> 'c TransactionManager \<Rightarrow> (thrown + unit) \<times> 'c TransactionManager" where
  "rollback d s =
     (if \<not> isTransactionActive s then
        (Inl (Error ''Nenhuma transacao ativa para rollback''), s)
      else
        (case conn_call d Rollback s of
           (Returns r, s1) \<Rightarrow> (Inr (), cleanupTransaction s1)
         | (Throws e, s1) \<Rightarrow>
             (Inl (Error (''Falha no rollback: '' @ errorMessage e)), cleanupTransaction s1)))"

definition commit ::
  "TransactionOptions \<Rightarrow> 'c driver \<Rightarrow> 'c TransactionManager \<Rightarrow> (thrown + unit) \<times> 'c TransactionManager" where
  "commit opts d s =
     (if \<not> isTransactionActive s then
        (Inl (Error ''Nenhuma transacao ativa para commit''), s)
      else
        (case conn_call d Commit s of
           (Returns r, s1) \<Rightarrow> (Inr (), cleanupTransaction s1)
         | (Throws e, s1) \<Rightarrow>
             (if autoRollbackOnError opts then
                (case rollback d s1 of
                   (Inl e2, s2) \<Rightarrow> (Inl e2, s2)
                 | (Inr u, s2) \<Rightarrow> (Inl (Error (''Falha no commit: '' @ errorMessage e)), s2))
              else (Inl (Error (''Falha no commit: '' @ errorMessage e)), s1))))"

text \<open>
  \<open>isRetryableError\<close>. The callback handed to \<open>some\<close> is
  \<open>code => error instanceof Error ? error.message : String(error)?.includes(code)\<close>:
  the conditional operator binds weaker than the call, so for an \<open>Error\<close> the
  callback's value is the message itself, and \<open>some\<close> takes it for true when it is
  not empty.
\<close>

definition retryableErrors :: "string list" where
  "retryableErrors = [''ORA-00060'', ''ORA-08177'', ''ORA-00054'', ''ORA-30006'']"

definition isRetryableError :: "thrown \<Rightarrow> bool" where
  "isRetryableError error =
     (if \<not> instanceof_Error error then False
      else list_ex
             (\<lambda>code. truthy (if instanceof_Error error then Str (message error)
                              else Bool (js_includes (String error) code)))
             retryableErrors)"

text \<open>
  \<open>executeWithRetry\<close>. The operation is a callback: it may do anything the public
  interface allows, so it is a function on the whole state that returns a value or
  throws. \<open>attempt\<close> and \<open>lastError\<close> are the loop's variables.
\<close>

definition retry_limit :: "TransactionOptions \<Rightarrow> int" where
  "retry_limit opts = (if maxRetries opts = 0 then 3 else maxRetries opts)"

definition retry_delay :: "TransactionOptions \<Rightarrow> int" where
  "retry_delay opts = (if retryDelay opts = 0 then 1000 else retryDelay opts)"

function executeWithRetry_loop ::
  "TransactionOptions \<Rightarrow> ('c TransactionManager \<Rightarrow> (thrown + 'a) \<times> 'c TransactionManager) \<Rightarrow>
   int \<Rightarrow> thrown option \<Rightarrow> 'c TransactionManager \<Rightarrow> (thrown + 'a) \<times> 'c TransactionManager" where
  "executeWithRetry_loop opts operation attempt lastError s =
     (if attempt \<le> retry_limit opts then
        (case operation s of
           (Inr v, s1) \<Rightarrow> (Inr v, s1)
         | (Inl error, s1) \<Rightarrow>
             (if \<not> isRetryableError error then (Inl error, s1)
              else if attempt < retry_limit opts then
                executeWithRetry_loop opts operation (attempt + 1) (Some error)
                  ((sleep (retry_delay opts) s1)\<lparr>retryCount := retryCount s1 + 1\<rparr>)
              else executeWithRetry_loop opts operation (attempt + 1) (Some error) s1))
      else
        (case lastError of
           Some e \<Rightarrow> (if instanceof_Error e then (Inl e, s) else (Inl (Error (String e)), s))
         | None \<Rightarrow> (Inl (Error ''undefined''), s)))"
  by pat_completeness auto
termination
  by (relation "measure (\<lambda>(opts, operation, attempt, lastError, s). nat (retry_limit opts + 1 - attempt))") auto

declare executeWithRetry_loop.simps [simp del]

definition executeWithRetry ::
  "TransactionOptions \<Rightarrow> ('c TransactionManager \<Rightarrow> (thrown + 'a) \<times> 'c TransactionManager) \<Rightarrow>
   string \<Rightarrow> 'c TransactionManager \<Rightarrow> (thrown + 'a) \<times> 'c TransactionManager" where
  "executeWithRetry opts operation operationName s = executeWithRetry_loop opts operation 1 None s"

text \<open>\<open>executeBatch\<close>: the statements of a batch, each optionally under a savepoint.\<close>

record BatchOperation =
  op_sql :: string
  op_binds :: "binds option"
  op_name :: "string option"

record BatchOptions =
  savepointPerOperation :: "bool option"
  stopOnError :: "bool option"

datatype BatchEntry =
    Succeeded nat string ExecResult "int option"
  | Failed nat string string

definition batch_try ::
  "'c driver \<Rightarrow> bool \<Rightarrow> nat \<Rightarrow> BatchOperation \<Rightarrow> 'c TransactionManager \<Rightarrow>
   (thrown + ExecResult) \<times> 'c TransactionManager" where
  "batch_try d savepointPerOp i operation s =
     (case (if savepointPerOp then
              createSavepoint d (''batch_'' @ string_of_nat i @ ''_'' @ string_of_nat (now s)) None s
            else (Inr (), s)) of
        (Inl e, s1) \<Rightarrow> (Inl e, s1)
      | (Inr u, s1) \<Rightarrow>
          (case conn_call d (Execute (op_sql operation)
                  (Some (case op_binds operation of None \<Rightarrow> Named [] | Some b \<Rightarrow> b)) (Some False)) s1 of
             (Throws e, s2) \<Rightarrow> (Inl e, s2)
           | (Returns result, s2) \<Rightarrow> (Inr result, s2)))"

fun executeBatch_loop ::
  "'c driver \<Rightarrow> bool \<Rightarrow> bool \<Rightarrow> nat \<Rightarrow> BatchOperation list \<Rightarrow> BatchEntry list \<Rightarrow>
   'c TransactionManager \<Rightarrow> (thrown + BatchEntry list) \<times> 'c TransactionManager" where
  "executeBatch_loop d savepointPerOp stopOnErr i [] results s = (Inr results, s)"
| "executeBatch_loop d savepointPerOp stopOnErr i (operation # rest) results s =
     (let operationName =
            (case op_name operation of
               None \<Rightarrow> ''operation_'' @ string_of_nat (i + 1)
             | Some n \<Rightarrow> if n = [] then ''operation_'' @ string_of_nat (i + 1) else n)
      in case batch_try d savepointPerOp i operation s of
           (Inr result, s1) \<Rightarrow>
             executeBatch_loop d savepointPerOp stopOnErr (i + 1) rest
               (results @ [Succeeded i operationName result (rowsAffected result)]) s1
         | (Inl error, s1) \<Rightarrow>
             (let results1 = results @ [Failed i operationName (errorMessage error)];
                  failure = Error (''Operacao '' @ quote @ operationName @ quote @ '' falhou: ''
                                   @ errorMessage error)
              in if stopOnErr then
                   (if savepointPerOp \<and> savepoints s1 \<noteq> [] then
                      (case rollbackToSavepoint d (name (last (savepoints s1))) s1 of
                         (Inl e2, s2) \<Rightarrow> (Inl e2, s2)
                       | (Inr u, s2) \<Rightarrow> (Inl failure, s2))
                    else (Inl failure, s1))
                 else executeBatch_loop d savepointPerOp stopOnErr (i + 1) rest results1 s1))"

definition executeBatch ::
  "TransactionOptions \<Rightarrow> 'c driver \<Rightarrow> BatchOperation list \<Rightarrow> BatchOptions \<Rightarrow>
   'c TransactionManager \<Rightarrow> (thrown + BatchEntry list) \<times> 'c TransactionManager" where
  "executeBatch opts d operations batchOptions s =
     (case (if \<not> isTransactionActive s then beginTransaction opts d s else (Inr (), s)) of
        (Inl e, s1) \<Rightarrow> (Inl e, s1)
      | (Inr u, s1) \<Rightarrow>
          executeBatch_loop d
            (case savepointPerOperation batchOptions of None \<Rightarrow> False | Some b \<Rightarrow> b)
            (case stopOnError batchOptions of None \<Rightarrow> True | Some b \<Rightarrow> b)
            0 operations [] s1)"

section \<open>Rows, options and results of the bulk operations\<close>

text \<open>
  A row is a plain object: its own keys in insertion order with their cells (keys
  distinct, and none of them an array index, which \<open>Object.keys\<close> would list first).
  Its prototype is \<open>Object.prototype\<close>, whose property names are listed below:
  \<open>col in row\<close> holds for the row's own keys and for these names, and \<open>row[col]\<close>
  reads the row's own cell, else the inherited value for one of these names, else
  \<open>undefined\<close>.
\<close>

type_synonym row = "(string \<times> js) list"

definition Object_keys :: "row \<Rightarrow> string list" where
  "Object_keys r = map fst r"

definition Object_prototype_keys :: "string list" where
  "Object_prototype_keys =
     [''constructor'', ''__defineGetter__'', ''__defineSetter__'', ''hasOwnProperty'',
      ''__lookupGetter__'', ''__lookupSetter__'', ''isPrototypeOf'', ''propertyIsEnumerable'',
      ''toString'', ''valueOf'', ''__proto__'', ''toLocaleString'']"

definition get_col :: "row \<Rightarrow> string \<Rightarrow> js" where
  "get_col r col =
     (case map_of r col of
        Some v \<Rightarrow> v
      | None \<Rightarrow> if col \<in> set Object_prototype_keys then Inherited col else Undefined)"

definition has_col :: "string \<Rightarrow> row \<Rightarrow> bool" where
  "has_col col r = (col \<in> set (map fst r) \<or> col \<in> set Object_prototype_keys)"

text \<open>\<open>xs[k]\<close> for a number \<open>k\<close>: \<open>undefined\<close> (\<open>None\<close>) outside the array.\<close>

definition nth_opt :: "'a list \<Rightarrow> int \<Rightarrow> 'a option" where
  "nth_opt xs k = (if 0 \<le> k \<and> k < int (length xs) then Some (xs ! nat k) else None)"

text \<open>
  \<open>BulkInsertOptions\<close> and \<open>BulkUpdateOptions\<close>; an absent property is \<open>None\<close>
  (\<open>Undefined\<close> for \<open>bindDefs\<close>). \<open>BulkDeleteOptions\<close> has the fields of
  \<open>BulkUpdateOptions\<close> that \<open>bulkDelete\<close> reads, so the same record serves both.
\<close>

record BulkInsertOptions =
  batchSize :: "int option"
  continueOnError :: "bool option"
  autoCommit :: "bool option"
  bindDefs :: js
  dmlRowCounts :: "bool option"

record BulkUpdateOptions = BulkInsertOptions +
  whereColumns :: "string list"

datatype error_data = NoData | RowData "row option" | BatchData "row list"

record BulkError =
  batchIndex :: int
  rowIndex :: int
  error :: js
  data :: error_data

record BulkOperationResult =
  operation :: string
  totalRows :: int
  successfulRows :: int
  failedRows :: int
  batchCount :: int
  duration :: int
  errors :: "BulkError list"

record ServiceResult =
  success :: bool
  result_data :: BulkOperationResult
  result_message :: string

text \<open>
  The local variables of a bulk loop: \<open>totalSuccess\<close>, \<open>totalErrors\<close>, \<open>errors\<close> and
  \<open>batchCount\<close> in OracleDatabase.node.ts; \<open>successful\<close>, \<open>failed\<close>, \<open>errors\<close> and
  \<open>batchCount\<close> in part\_003.
\<close>

record tally =
  totalSuccess :: int
  totalErrors :: int
  errorList :: "BulkError list"
  batchCounter :: int

definition tally0 :: tally where
  "tally0 = \<lparr>totalSuccess = 0, totalErrors = 0, errorList = [], batchCounter = 0\<rparr>"

text \<open>
  The loop \<open>for (let i = 0; i < data.length; i += batchSize) { body }\<close>, which every
  bulk operation of both files runs: \<open>step\<close> is its body, which may throw out of the
  loop. With a batch size that is not positive the loop never ends: the value is then
  \<open>None\<close>.
\<close>

partial_function (option) batch_loop ::
  "(int \<Rightarrow> 'a \<Rightarrow> 's \<Rightarrow> (thrown + 'a) \<times> 's) \<Rightarrow> int \<Rightarrow> int \<Rightarrow> int \<Rightarrow> 'a \<Rightarrow> 's \<Rightarrow>
   ((thrown + 'a) \<times> 's) option" where
  "batch_loop step n b i acc w =
     (if i < n then
        (case step i acc w of
           (Inl e, w1) \<Rightarrow> Some (Inl e, w1)
         | (Inr acc1, w1) \<Rightarrow> batch_loop step n b (i + b) acc1 w1)
      else Some (Inr acc, w))"

section \<open>BulkOperations of src/nodes/Oracle/OracleDatabase.node.ts\<close>

definition new_BulkOperations :: "int option \<Rightarrow> int" where
  "new_BulkOperations defaultBatchSize =
     (case defaultBatchSize of None \<Rightarrow> 1000 | Some b \<Rightarrow> if b = 0 then 1000 else b)"

fun validate_columns :: "nat \<Rightarrow> row \<Rightarrow> string list \<Rightarrow> thrown option" where
  "validate_columns i r [] = None"
| "validate_columns i r (col # cols) =
     (if \<not> has_col col r then
        Some (Error (''Linha '' @ string_of_nat i @ '': coluna '' @ quote @ col @ quote
                     @ '' nao encontrada''))
      else validate_columns i r cols)"

fun validate_rows :: "nat \<Rightarrow> row list \<Rightarrow> string list \<Rightarrow> thrown option" where
  "validate_rows i [] expectedColumns = None"
| "validate_rows i (r # rs) expectedColumns =
     (case validate_columns i r expectedColumns of
        Some e \<Rightarrow> Some e
      | None \<Rightarrow> validate_rows (i + 1) rs expectedColumns)"

definition validateDataStructure :: "row list \<Rightarrow> string list \<Rightarrow> thrown option" where
  "validateDataStructure rows expectedColumns = validate_rows 0 rows expectedColumns"

text \<open>One entry of \<open>result.batchErrors\<close>, as the three loops of this file record it.\<close>

definition record_batchError :: "int \<Rightarrow> row list \<Rightarrow> tally \<Rightarrow> DbBatchError \<Rightarrow> tally" where
  "record_batchError i batch acc batchError =
     (let off = (case offset batchError of None \<Rightarrow> 0 | Some k \<Rightarrow> k)
      in acc\<lparr>errorList := errorList acc @
               [\<lparr>batchIndex = batchCounter acc - 1,
                 rowIndex = i + off,
                 error = Str (case error_message batchError of
                                None \<Rightarrow> ''Unknown batch error''
                              | Some m \<Rightarrow> if m = [] then ''Unknown batch error'' else m),
                 data = RowData (nth_opt batch off)\<rparr>],
             totalErrors := totalErrors acc + 1\<rparr>)"

text \<open>The catch block of the three loops.\<close>

definition batch_catch ::
  "bool \<Rightarrow> int \<Rightarrow> row list \<Rightarrow> thrown \<Rightarrow> tally \<Rightarrow> 's \<Rightarrow> (thrown + tally) \<times> 's" where
  "batch_catch continueOnErr i batch err acc w =
     (if continueOnErr then
        (Inr (acc\<lparr>errorList := errorList acc @
                   [\<lparr>batchIndex = batchCounter acc - 1, rowIndex = i,
                     error = Str (errorMessage err), data = BatchData batch\<rparr>],
                 totalErrors := totalErrors acc + int (length batch)\<rparr>), w)
      else
        (Inl (Error (''Erro no lote '' @ string_of_int (batchCounter acc) @ '': ''
                     @ errorMessage err)), w))"

text \<open>
  The body of the loop. The three operations differ in the statement, in how a row
  becomes a bind row (\<open>bindRow\<close>) and in the options handed to \<open>executeMany\<close>.
\<close>

definition batch_step ::
  "'c driver \<Rightarrow> string \<Rightarrow> (row \<Rightarrow> binds) \<Rightarrow> ExecuteManyOptions \<Rightarrow> bool \<Rightarrow> bool \<Rightarrow> row list \<Rightarrow> int \<Rightarrow>
   int \<Rightarrow> tally \<Rightarrow> ('c, 'z) world_scheme \<Rightarrow> (thrown + tally) \<times> ('c, 'z) world_scheme" where
  "batch_step d sql bindRow emOptions continueOnErr autoCommitOn rows bsize i acc0 w =
     (let batch = js_slice i (i + bsize) rows;
          batchData = map bindRow batch;
          acc = acc0\<lparr>batchCounter := batchCounter acc0 + 1\<rparr>
      in case conn_call d (ExecuteMany sql batchData emOptions) w of
           (Throws err, w1) \<Rightarrow> batch_catch continueOnErr i batch err acc w1
         | (Returns result, w1) \<Rightarrow>
             (let acc1 =
                    (case batchErrors result of
                       None \<Rightarrow> acc\<lparr>totalSuccess := totalSuccess acc + int (length batch)\<rparr>
                     | Some bes \<Rightarrow>
                         if length bes > 0 then foldl (record_batchError i batch) acc bes
                         else acc\<lparr>totalSuccess := totalSuccess acc + int (length batch)\<rparr>)
              in if autoCommitOn then
                   (case conn_call d Commit w1 of
                      (Throws err, w2) \<Rightarrow> batch_catch continueOnErr i batch err acc1 w2
                    | (Returns r, w2) \<Rightarrow> (Inr acc1, w2))
                 else (Inr acc1, w1)))"

text \<open>What follows the loop: the final commit and the result object.\<close>

definition bulk_finish ::
  "'c driver \<Rightarrow> string \<Rightarrow> bool \<Rightarrow> row list \<Rightarrow> nat \<Rightarrow> tally \<Rightarrow> ('c, 'z) world_scheme \<Rightarrow>
   (thrown + BulkOperationResult) \<times> ('c, 'z) world_scheme" where
  "bulk_finish d opname autoCommitOn rows startTime acc w =
     (case (if \<not> autoCommitOn \<and> totalSuccess acc > 0 then conn_call d Commit w
            else (Returns ok_result, w)) of
        (Throws err, w1) \<Rightarrow> (Inl err, w1)
      | (Returns r, w1) \<Rightarrow>
          (Inr \<lparr>operation = opname, totalRows = int (length rows),
                successfulRows = totalSuccess acc, failedRows = totalErrors acc,
                batchCount = batchCounter acc, duration = int (now w1) - int startTime,
                errors = errorList acc\<rparr>, w1))"

definition bulk_run ::
  "'c driver \<Rightarrow> string \<Rightarrow> string \<Rightarrow> (row \<Rightarrow> binds) \<Rightarrow> ExecuteManyOptions \<Rightarrow> bool \<Rightarrow> bool \<Rightarrow>
   row list \<Rightarrow> int \<Rightarrow> nat \<Rightarrow> ('c, 'z) world_scheme \<Rightarrow>
   ((thrown + BulkOperationResult) \<times> ('c, 'z) world_scheme) option" where
  "bulk_run d opname sql bindRow emOptions continueOnErr autoCommitOn rows bsize startTime w =
     (case batch_loop (batch_step d sql bindRow emOptions continueOnErr autoCommitOn rows bsize)
             (int (length rows)) bsize 0 tally0 w of
        None \<Rightarrow> None
      | Some (Inl e, w1) \<Rightarrow> Some (Inl e, w1)
      | Some (Inr acc, w1) \<Rightarrow> Some (bulk_finish d opname autoCommitOn rows startTime acc w1))"

definition option_or :: "'a option \<Rightarrow> 'a \<Rightarrow> 'a" where
  "option_or v dflt = (case v of None \<Rightarrow> dflt | Some x \<Rightarrow> x)"

definition column_binds :: "string list \<Rightarrow> row \<Rightarrow> binds" where
  "column_binds columns r = Positional (map (get_col r) columns)"

definition bulkInsert ::
  "int \<Rightarrow> 'c driver \<Rightarrow> string \<Rightarrow> row list \<Rightarrow> BulkInsertOptions \<Rightarrow> ('c, 'z) world_scheme \<Rightarrow>
   ((thrown + BulkOperationResult) \<times> ('c, 'z) world_scheme) option" where
  "bulkInsert defaultBatchSize d tableName rows options w =
     (let startTime = now w;
          bsize = option_or (batchSize options) defaultBatchSize;
          continueOnErr = option_or (continueOnError options) False;
          autoCommitOn = option_or (autoCommit options) True;
          rowCounts = option_or (dmlRowCounts options) True
      in case rows of
           [] \<Rightarrow> Some (Inl (Error ''Dados para insercao nao podem estar vazios''), w)
         | row0 # others \<Rightarrow>
             (let columns = Object_keys row0
              in case validateDataStructure rows columns of
                   Some e \<Rightarrow> Some (Inl e, w)
                 | None \<Rightarrow>
                     (let placeholders = join '','' (map (\<lambda>c. ''?'') columns);
                          sql = ''INSERT INTO '' @ tableName @ '' ('' @ join '','' columns
                                @ '') VALUES ('' @ placeholders @ '')''
                      in bulk_run d ''INSERT'' sql (column_binds columns)
                           \<lparr>em_autoCommit = False, em_batchErrors = continueOnErr,
                            em_bindDefs = bindDefs options, em_dmlRowCounts = Some rowCounts\<rparr>
                           continueOnErr autoCommitOn rows bsize startTime w)))"

definition update_binds :: "string list \<Rightarrow> string list \<Rightarrow> row \<Rightarrow> binds" where
  "update_binds setColumns whereCols r =
     Positional (map (get_col r) setColumns @ map (get_col r) whereCols)"

definition bulkUpdate ::
  "int \<Rightarrow> 'c driver \<Rightarrow> string \<Rightarrow> row list \<Rightarrow> BulkUpdateOptions \<Rightarrow> ('c, 'z) world_scheme \<Rightarrow>
   ((thrown + BulkOperationResult) \<times> ('c, 'z) world_scheme) option" where
  "bulkUpdate defaultBatchSize d tableName rows options w =
     (let startTime = now w;
          bsize = option_or (batchSize options) defaultBatchSize;
          continueOnErr = option_or (continueOnError options) False;
          autoCommitOn = option_or (autoCommit options) True
      in if whereColumns options = [] then
           Some (Inl (Error ''whereColumns deve ser especificado para bulk update''), w)
         else
           (case rows of
              [] \<Rightarrow> Some (Inl (Error ''Dados para atualizacao nao podem estar vazios''), w)
            | row0 # others \<Rightarrow>
                (let allColumns = Object_keys row0;
                     setColumns = filter (\<lambda>col. col \<notin> set (whereColumns options)) allColumns
                 in if setColumns = [] then
                      Some (Inl (Error ''Nenhuma coluna para atualizar encontrada''), w)
                    else
                      (let setClause = join '','' (map (\<lambda>col. col @ '' = ?'') setColumns);
                           whereClause = join '' AND ''
                                           (map (\<lambda>col. col @ '' = ?'') (whereColumns options));
                           sql = ''UPDATE '' @ tableName @ '' SET '' @ setClause @ '' WHERE ''
                                 @ whereClause
                       in bulk_run d ''UPDATE'' sql (update_binds setColumns (whereColumns options))
                            \<lparr>em_autoCommit = False, em_batchErrors = continueOnErr,
                             em_bindDefs = Undefined, em_dmlRowCounts = Some True\<rparr>
                            continueOnErr autoCommitOn rows bsize startTime w))))"

definition bulkDelete ::
  "int \<Rightarrow> 'c driver \<Rightarrow> string \<Rightarrow> row list \<Rightarrow> BulkUpdateOptions \<Rightarrow> ('c, 'z) world_scheme \<Rightarrow>
   ((thrown + BulkOperationResult) \<times> ('c, 'z) world_scheme) option" where
  "bulkDelete defaultBatchSize d tableName rows options w =
     (let startTime = now w;
          bsize = option_or (batchSize options) defaultBatchSize;
          continueOnErr = option_or (continueOnError options) False;
          autoCommitOn = option_or (autoCommit options) True
      in if whereColumns options = [] then
           Some (Inl (Error ''whereColumns deve ser especificado para bulk delete''), w)
         else
           (case rows of
              [] \<Rightarrow> Some (Inl (Error ''Dados para exclusao nao podem estar vazios''), w)
            | row0 # others \<Rightarrow>
                (let whereClause = join '' AND ''
                                     (map (\<lambda>col. col @ '' = ?'') (whereColumns options));
                     sql = ''DELETE FROM '' @ tableName @ '' WHERE '' @ whereClause
                 in bulk_run d ''DELETE'' sql (column_binds (whereColumns options))
                      \<lparr>em_autoCommit = False, em_batchErrors = continueOnErr,
                       em_bindDefs = Undefined, em_dmlRowCounts = Some True\<rparr>
                      continueOnErr autoCommitOn rows bsize startTime w)))"

text \<open>\<open>bulkUpsert\<close>: one MERGE statement for all the rows, built as text.\<close>

definition generateValuesClause :: "string list \<Rightarrow> nat \<Rightarrow> string" where
  "generateValuesClause columns rowCount =
     (let valueRows =
            map (\<lambda>i. ''('' @ join '',''
                        (map (\<lambda>colIndex. '':'' @ string_of_nat (i * length columns + colIndex + 1))
                           [0..<length columns]) @ '')'')
              [0..<rowCount]
      in ''SELECT * FROM (VALUES '' @ join '','' valueRows @ '')'')"

definition newline :: string where
  "newline = [CHR 0x0A]"

definition merge_sql :: "string \<Rightarrow> string list \<Rightarrow> string list \<Rightarrow> nat \<Rightarrow> string" where
  "merge_sql tableName allColumns keyColumns rowCount =
     (let updateColumns = filter (\<lambda>col. col \<notin> set keyColumns) allColumns;
          mergeClause = join '' AND '' (map (\<lambda>col. ''target.'' @ col @ '' = source.'' @ col) keyColumns);
          insertColumns = join '','' allColumns;
          insertValues = join '','' (map (\<lambda>col. ''source.'' @ col) allColumns);
          updateClause = join '','' (map (\<lambda>col. ''target.'' @ col @ '' = source.'' @ col) updateColumns)
      in newline
         @ ''            MERGE INTO '' @ tableName @ '' target'' @ newline
         @ ''            USING ('' @ generateValuesClause allColumns rowCount @ '') source (''
         @ insertColumns @ '')'' @ newline
         @ ''            ON ('' @ mergeClause @ '')'' @ newline
         @ ''            WHEN MATCHED THEN'' @ newline
         @ ''                UPDATE SET '' @ updateClause @ newline
         @ ''            WHEN NOT MATCHED THEN'' @ newline
         @ ''                INSERT ('' @ insertColumns @ '') VALUES ('' @ insertValues @ '')''
         @ newline @ ''        '')"

definition bulkUpsert ::
  "'c driver \<Rightarrow> string \<Rightarrow> row list \<Rightarrow> string list \<Rightarrow> BulkInsertOptions \<Rightarrow> ('c, 'z) world_scheme \<Rightarrow>
   (thrown + BulkOperationResult) \<times> ('c, 'z) world_scheme" where
  "bulkUpsert d tableName rows keyColumns options w =
     (let startTime = now w
      in if keyColumns = [] then
           (Inl (Error ''keyColumns deve ser especificado para upsert''), w)
         else
           (case rows of
              [] \<Rightarrow> (Inl (TypeError ''Cannot convert undefined or null to object''), w)
            | row0 # others \<Rightarrow>
                (let allColumns = Object_keys row0;
                     sql = merge_sql tableName allColumns keyColumns (length rows);
                     flatData = concat (map (\<lambda>r. map (get_col r) allColumns) rows)
                 in case conn_call d (Execute sql (Some (Positional flatData))
                                        (Some (autoCommit options \<noteq> Some False))) w of
                      (Throws err, w1) \<Rightarrow>
                        (Inl (Error (''Erro no bulk upsert: '' @ errorMessage err)), w1)
                    | (Returns result, w1) \<Rightarrow>
                        (Inr \<lparr>operation = ''UPSERT'', totalRows = int (length rows),
                              successfulRows = option_or (rowsAffected result) 0,
                              failedRows = 0, batchCount = 1,
                              duration = int (now w1) - int startTime, errors = []\<rparr>, w1))))"

section \<open>BulkOperations of src/unnamed/part\_003\<close>

text \<open>\<open>(error as Error).message\<close>: \<open>undefined\<close> on a thrown value that is no \<open>Error\<close>.\<close>

definition message_property :: "thrown \<Rightarrow> js" where
  "message_property err = (if instanceof_Error err then Str (message err) else Undefined)"

definition core_record_batchError :: "int \<Rightarrow> tally \<Rightarrow> DbBatchError \<Rightarrow> tally" where
  "core_record_batchError i acc err =
     acc\<lparr>errorList := errorList acc @
           [\<lparr>batchIndex = batchCounter acc - 1,
             rowIndex = i + (case offset err of None \<Rightarrow> 0 | Some k \<Rightarrow> k),
             error = Str (case error_message err of
                            None \<Rightarrow> ''Unknown''
                          | Some m \<Rightarrow> if m = [] then ''Unknown'' else m),
             data = NoData\<rparr>]\<rparr>"

definition core_batch_catch ::
  "bool \<Rightarrow> int \<Rightarrow> row list \<Rightarrow> thrown \<Rightarrow> tally \<Rightarrow> 's \<Rightarrow> (thrown + tally) \<times> 's" where
  "core_batch_catch continueOnErr i batch err acc0 w =
     (let acc = acc0\<lparr>totalErrors := totalErrors acc0 + int (length batch)\<rparr>
      in if \<not> continueOnErr then (Inl err, w)
         else
           (Inr (acc\<lparr>errorList := errorList acc @
                      map (\<lambda>idx. \<lparr>batchIndex = batchCounter acc - 1, rowIndex = i + int idx,
                                   error = message_property err, data = NoData\<rparr>)
                        [0..<length batch]\<rparr>), w))"

definition named_binds :: "string list \<Rightarrow> row \<Rightarrow> binds" where
  "named_binds columns r = Named (map (\<lambda>col. (col, get_col r col)) columns)"

definition core_batch_step ::
  "'c driver \<Rightarrow> string \<Rightarrow> string list \<Rightarrow> bool \<Rightarrow> bool \<Rightarrow> row list \<Rightarrow> int \<Rightarrow>
   int \<Rightarrow> tally \<Rightarrow> ('c, 'z) world_scheme \<Rightarrow> (thrown + tally) \<times> ('c, 'z) world_scheme" where
  "core_batch_step d sql columns continueOnErr autoCommitOn rows bsize i acc0 w =
     (let acc = acc0\<lparr>batchCounter := batchCounter acc0 + 1\<rparr>;
          batch = js_slice i (i + bsize) rows;
          bindRows = map (named_binds columns) batch
      in case conn_call d (ExecuteMany sql bindRows
                \<lparr>em_autoCommit = False, em_batchErrors = continueOnErr,
                 em_bindDefs = Undefined, em_dmlRowCounts = None\<rparr>) w of
           (Throws err, w1) \<Rightarrow> core_batch_catch continueOnErr i batch err acc w1
         | (Returns result, w1) \<Rightarrow>
             (let acc1 =
                    (case batchErrors result of
                       None \<Rightarrow> acc\<lparr>totalSuccess := totalSuccess acc + int (length batch)\<rparr>
                     | Some bes \<Rightarrow>
                         if length bes > 0 then
                           (let acc2 = foldl (core_record_batchError i) acc bes
                            in acc2\<lparr>totalErrors := totalErrors acc2 + int (length bes),
                                    totalSuccess := totalSuccess acc2
                                      + (int (length batch) - int (length bes))\<rparr>)
                         else acc\<lparr>totalSuccess := totalSuccess acc + int (length batch)\<rparr>)
              in if autoCommitOn then
                   (case conn_call d Commit w1 of
                      (Throws err, w2) \<Rightarrow> core_batch_catch continueOnErr i batch err acc1 w2
                    | (Returns r, w2) \<Rightarrow> (Inr acc1, w2))
                 else (Inr acc1, w1)))"

definition core_finish ::
  "'c driver \<Rightarrow> bool option \<Rightarrow> row list \<Rightarrow> nat \<Rightarrow> tally \<Rightarrow> ('c, 'z) world_scheme \<Rightarrow>
   (thrown + ServiceResult) \<times> ('c, 'z) world_scheme" where
  "core_finish d autoCommitOption rows start acc w =
     (case (if autoCommitOption \<noteq> Some True \<and> totalSuccess acc > 0 then conn_call d Commit w
            else (Returns ok_result, w)) of
        (Throws err, w1) \<Rightarrow> (Inl err, w1)
      | (Returns r, w1) \<Rightarrow>
          (let dur = int (now w1) - int start
           in (Inr \<lparr>success = (totalErrors acc = 0),
                    result_data =
                      \<lparr>operation = ''INSERT'', totalRows = int (length rows),
                       successfulRows = totalSuccess acc, failedRows = totalErrors acc,
                       batchCount = batchCounter acc, duration = dur, errors = errorList acc\<rparr>,
                    result_message =
                      ''Bulk insert completed: '' @ string_of_int (totalSuccess acc)
                      @ '' succeeded, '' @ string_of_int (totalErrors acc) @ '' failed in ''
                      @ string_of_int dur @ ''ms''\<rparr>, w1)))"

definition core_bulkInsert ::
  "int \<Rightarrow> 'c driver \<Rightarrow> string \<Rightarrow> row list \<Rightarrow> BulkInsertOptions \<Rightarrow> ('c, 'z) world_scheme \<Rightarrow>
   ((thrown + ServiceResult) \<times> ('c, 'z) world_scheme) option" where
  "core_bulkInsert defaultBatchSize d tableName rows options w =
     (let bsize = option_or (batchSize options) defaultBatchSize;
          continueOnErr = option_or (continueOnError options) False;
          autoCommitOn = option_or (autoCommit options) True;
          start = now w;
          columns = (case rows of [] \<Rightarrow> [] | row0 # others \<Rightarrow> Object_keys row0);
          placeholders = join '', '' (map (\<lambda>c. '':'' @ c) columns);
          sql = ''INSERT INTO '' @ tableName @ '' ('' @ join '', '' columns @ '') VALUES (''
                @ placeholders @ '')''
      in case batch_loop (core_batch_step d sql columns continueOnErr autoCommitOn rows bsize)
                (int (length rows)) bsize 0 tally0 w of
           None \<Rightarrow> None
         | Some (Inl e, w1) \<Rightarrow> Some (Inl e, w1)
         | Some (Inr acc, w1) \<Rightarrow> Some (core_finish d (autoCommit options) rows start acc w1))"

text \<open>
  In part\_003 the bodies of \<open>bulkUpdate\<close>, \<open>bulkDelete\<close> and \<open>bulkUpsert\<close> repeat the
  body of \<open>bulkInsert\<close> word for word (the INSERT statement included).
\<close>

definition core_bulkUpdate ::
  "int \<Rightarrow> 'c driver \<Rightarrow> string \<Rightarrow> row list \<Rightarrow> BulkInsertOptions \<Rightarrow> ('c, 'z) world_scheme \<Rightarrow>
   ((thrown + ServiceResult) \<times> ('c, 'z) world_scheme) option" where
  "core_bulkUpdate = core_bulkInsert"

definition core_bulkDelete ::
  "int \<Rightarrow> 'c driver \<Rightarrow> string \<Rightarrow> row list \<Rightarrow> BulkInsertOptions \<Rightarrow> ('c, 'z) world_scheme \<Rightarrow>
   ((thrown + ServiceResult) \<times> ('c, 'z) world_scheme) option" where
  "core_bulkDelete = core_bulkInsert"

definition core_bulkUpsert ::
  "int \<Rightarrow> 'c driver \<Rightarrow> string \<Rightarrow> row list \<Rightarrow> BulkInsertOptions \<Rightarrow> ('c, 'z) world_scheme \<Rightarrow>
   ((thrown + ServiceResult) \<times> ('c, 'z) world_scheme) option" where
  "core_bulkUpsert = core_bulkInsert"

section \<open>The transaction state's invariant and the objects of the scenarios\<close>

text \<open>
  The pattern the specification gives for a savepoint name,
  \<open>^[A-Za-z][A-Za-z0-9_]{0,29}$\<close>, written from the specification's words; the
  source's own test is \<open>isValidSavepointName\<close>.
\<close>

definition savepoint_name_pattern :: "string \<Rightarrow> bool" where
  "savepoint_name_pattern nm =
     (case nm of [] \<Rightarrow> False
      | c # cs \<Rightarrow> is_letter c \<and> list_all is_word_char cs \<and> length cs \<le> 29)"

text \<open>
  The invariant of the transaction state: the savepoint names are pairwise distinct,
  each matches the pattern, and an inactive coordinator has no savepoint and no start
  time.
\<close>

definition TransactionState_inv :: "'c TransactionManager \<Rightarrow> bool" where
  "TransactionState_inv s =
     (distinct (map name (savepoints s))
      \<and> list_all (\<lambda>sp. savepoint_name_pattern (name sp)) (savepoints s)
      \<and> (\<not> isTransactionActive s \<longrightarrow> savepoints s = [] \<and> transactionStartTime s = None))"

text \<open>What \<open>executeWithRetry\<close> does between two attempts: it sleeps and counts the retry.\<close>

definition retry_pause :: "TransactionOptions \<Rightarrow> 'c TransactionManager \<Rightarrow> 'c TransactionManager" where
  "retry_pause opts s = (sleep (retry_delay opts) s)\<lparr>retryCount := retryCount s + 1\<rparr>"

text \<open>
  Concrete drivers, operations and states for the scenarios: a driver that accepts every
  call, one that answers every call with a deadlock error, an operation that sends one
  statement, a fresh world, a transaction just begun, and the transaction of the
  specification's savepoint scenario.
\<close>

definition always_ok :: "unit driver" where
  "always_ok c u = (Returns ok_result, u)"

definition deadlock_driver :: "unit driver" where
  "deadlock_driver c u =
     (Throws (Error ''ORA-00060: deadlock detected while waiting for resource''), u)"

definition run_statement ::
  "'c driver \<Rightarrow> string \<Rightarrow> 'c TransactionManager \<Rightarrow> (thrown + ExecResult) \<times> 'c TransactionManager" where
  "run_statement d sql s =
     (case conn_call d (Execute sql None None) s of
        (Throws e, s1) \<Rightarrow> (Inl e, s1)
      | (Returns r, s1) \<Rightarrow> (Inr r, s1))"

definition world0 :: "unit world" where
  "world0 = \<lparr>conn = (), sent = [], now = 0\<rparr>"

definition begun :: "unit TransactionManager" where
  "begun = snd (beginTransaction default_options always_ok (new_TransactionManager world0))"

definition sp_scenario :: "unit TransactionManager" where
  "sp_scenario =
     snd (createSavepoint always_ok ''sp2'' None
       (snd (createSavepoint always_ok ''sp1'' None
         (snd (beginTransaction default_options always_ok (new_TransactionManager world0))))))"

definition deadlock_operation :: "unit TransactionManager \<Rightarrow> (thrown + ExecResult) \<times> unit TransactionManager" where
  "deadlock_operation = run_statement deadlock_driver ''UPDATE accounts SET balance = 0''"



definition three_rows :: "row list" where
  "three_rows = [[(''a'', Num 1)], [(''a'', Num 2)], [(''a'', Num 3)]]"

definition no_options :: BulkInsertOptions where
  "no_options =
     \<lparr>batchSize = None, continueOnError = None, autoCommit = None, bindDefs = Undefined,
      dmlRowCounts = None\<rparr>"



definition scenario_options :: BulkInsertOptions where
  "scenario_options =
     \<lparr>batchSize = Some 2, continueOnError = Some True, autoCommit = None,
      bindDefs = Undefined, dmlRowCounts = None\<rparr>"

definition row1_fails :: "reply list" where
  "row1_fails =
     [Returns \<lparr>rowsAffected = Some 1,
               batchErrors = Some [\<lparr>offset = Some 1,
                                    error_message = Some ''ORA-00001: unique constraint violated''\<rparr>]\<rparr>]"


definition scripted_world :: "reply list \<Rightarrow> reply list world" where
  "scripted_world rs = \<lparr>conn = rs, sent = [], now = 0\<rparr>"

definition empty_ServiceResult :: ServiceResult where
  "empty_ServiceResult =
     \<lparr>success = True,
      result_data = \<lparr>operation = ''INSERT'', totalRows = 0, successfulRows = 0, failedRows = 0,
                     batchCount = 0, duration = 0, errors = []\<rparr>,
      result_message = ''Bulk insert completed: 0 succeeded, 0 failed in 0ms''\<rparr>"

section \<open>The partition into batches\<close>

text \<open>The bind rows of the \<open>executeMany\<close> calls of a log, in the order sent.\<close>

definition executeMany_binds :: "call list \<Rightarrow> binds list list" where
  "executeMany_binds cs =
     concat (map (\<lambda>c. case c of ExecuteMany sql bs opts \<Rightarrow> [bs] | _ \<Rightarrow> []) cs)"



section \<open>Lemmas on the list primitives\<close>

lemma findIndex_takeWhile:
  "findIndex p xs =
     (if \<exists>x\<in>set xs. p x then int (length (takeWhile (\<lambda>x. \<not> p x) xs)) else -1)"
  by (induction xs) (auto simp: Let_def)

lemma findIndex_found:
  "\<exists>x\<in>set xs. p x \<Longrightarrow> findIndex p xs = int (length (takeWhile (\<lambda>x. \<not> p x) xs))"
  by (simp add: findIndex_takeWhile)

lemma findIndex_missing: "\<not> (\<exists>x\<in>set xs. p x) \<Longrightarrow> findIndex p xs = -1"
  by (simp add: findIndex_takeWhile)

lemma length_takeWhile_less: "\<exists>x\<in>set xs. \<not> P x \<Longrightarrow> length (takeWhile P xs) < length xs"
  by (induction xs) auto

lemma findIndex_ge: "-1 \<le> findIndex p xs"
  by (cases "\<exists>x\<in>set xs. p x") (simp_all add: findIndex_found findIndex_missing)

lemma js_slice_take: "0 \<le> k \<Longrightarrow> js_slice 0 k xs = take (nat k) xs"
  by (auto simp: js_slice_def clamp_index_def Let_def min_def)

lemma js_splice1_nth: "0 \<le> k \<Longrightarrow> k < int (length xs) \<Longrightarrow> js_splice1 k xs = take (nat k) xs @ drop (Suc (nat k)) xs"
  by (auto simp: js_splice1_def clamp_index_def Let_def min_def)

lemma list_all_take: "list_all P xs \<Longrightarrow> list_all P (take n xs)"
  by (auto simp: list_all_iff dest: in_set_takeD)

lemma list_all_drop: "list_all P xs \<Longrightarrow> list_all P (drop n xs)"
  by (auto simp: list_all_iff dest: in_set_dropD)

lemma distinct_take_drop: "distinct xs \<Longrightarrow> distinct (take n xs @ drop (Suc n) xs)"
  using set_take_disj_set_drop_if_distinct [of xs n "Suc n"] by simp

lemma find_None_name: "find (\<lambda>sp. name sp = nm) sps = None \<longleftrightarrow> nm \<notin> set (map name sps)"
  by (induction sps) auto

lemma find_Some_name:
  "nm \<in> set (map name sps) \<Longrightarrow> \<exists>sp. find (\<lambda>sp. name sp = nm) sps = Some sp"
  by (induction sps) auto

lemma takeWhile_map_name:
  "map name (takeWhile (\<lambda>sp. name sp \<noteq> nm) sps) = takeWhile (\<lambda>n. n \<noteq> nm) (map name sps)"
  by (simp add: takeWhile_map comp_def)

lemma take_Suc_takeWhile:
  "nm \<in> set ns \<Longrightarrow> take (Suc (length (takeWhile (\<lambda>n. n \<noteq> nm) ns))) ns = takeWhile (\<lambda>n. n \<noteq> nm) ns @ [nm]"
  by (induction ns) auto

section \<open>The error classifier\<close>

text \<open>
  C2. The classifier is meant to accept the four conflict codes only. As the source is
  written, the callback of \<open>some\<close> yields the error's message, not the result of
  \<open>includes\<close>, so an \<open>Error\<close> whose message holds none of the four codes is
  classified retryable as soon as its message is not empty: here a unique-constraint
  violation.
\<close>

theorem isRetryableError_unique_constraint:
  "isRetryableError (Error ''ORA-00001: unique constraint violated'')
   \<and> \<not> list_ex (js_includes ''ORA-00001: unique constraint violated'') retryableErrors"
  by (simp add: isRetryableError_def retryableErrors_def)

section \<open>The invariant is preserved\<close>

lemma isValidSavepointName_pattern: "isValidSavepointName nm = savepoint_name_pattern nm"
  by (cases nm) (auto simp: isValidSavepointName_def savepoint_name_pattern_def)

lemma conn_call_fields [simp]:
  "savepoints (snd (conn_call d c s)) = savepoints s"
  "transactionStartTime (snd (conn_call d c s)) = transactionStartTime s"
  "isTransactionActive (snd (conn_call d c s)) = isTransactionActive s"
  "retryCount (snd (conn_call d c s)) = retryCount s"
  by (simp_all add: conn_call_def split: prod.splits)

lemma conn_call_inv [simp]: "TransactionState_inv (snd (conn_call d c s)) = TransactionState_inv s"
  by (simp add: TransactionState_inv_def)

lemma conn_call_eqD: "conn_call d c s = (r, s1) \<Longrightarrow> s1 = snd (conn_call d c s)"
  by simp

lemma inv_new: "TransactionState_inv (new_TransactionManager w)"
  by (simp add: TransactionState_inv_def new_TransactionManager_def)

lemma inv_cleanup: "TransactionState_inv (cleanupTransaction s)"
  by (simp add: TransactionState_inv_def cleanupTransaction_def)

lemma inv_beginTransaction:
  "TransactionState_inv s \<Longrightarrow> TransactionState_inv (snd (beginTransaction opts d s))"
  by (auto simp: beginTransaction_def setIsolationLevel_def setTransactionTimeout_def Let_def
        TransactionState_inv_def
      split: prod.splits sum.splits reply.splits if_splits dest!: conn_call_eqD)

lemma inv_createSavepoint:
  "TransactionState_inv s \<Longrightarrow> TransactionState_inv (snd (createSavepoint d nm descr s))"
  by (auto simp: createSavepoint_def TransactionState_inv_def isValidSavepointName_pattern
        find_None_name
      split: prod.splits sum.splits reply.splits if_splits dest!: conn_call_eqD)

lemma inv_rollbackToSavepoint:
  "TransactionState_inv s \<Longrightarrow> TransactionState_inv (snd (rollbackToSavepoint d nm s))"
  using findIndex_ge [of "\<lambda>sp. name sp = nm" "savepoints s"]
  by (auto simp: rollbackToSavepoint_def TransactionState_inv_def Let_def js_slice_take
        take_map [symmetric] list_all_take
      split: prod.splits sum.splits reply.splits if_splits option.splits dest!: conn_call_eqD)

lemma inv_releaseSavepoint:
  "TransactionState_inv s \<Longrightarrow> TransactionState_inv (snd (releaseSavepoint nm s))"
proof (cases "\<exists>x\<in>set (savepoints s). name x = nm")
  case False
  then show "TransactionState_inv s \<Longrightarrow> ?thesis"
    by (simp add: releaseSavepoint_def Let_def findIndex_missing)
next
  case True
  assume inv: "TransactionState_inv s"
  let ?k = "length (takeWhile (\<lambda>x. name x \<noteq> nm) (savepoints s))"
  have k: "findIndex (\<lambda>sp. name sp = nm) (savepoints s) = int ?k"
    using True by (simp add: findIndex_found)
  have lt: "?k < length (savepoints s)"
    using True by (simp add: length_takeWhile_less)
  have "distinct (map name (take ?k (savepoints s) @ drop (Suc ?k) (savepoints s)))"
    using inv distinct_take_drop [of "map name (savepoints s)" ?k]
    by (simp add: TransactionState_inv_def take_map drop_map)
  then show ?thesis
    using inv k lt
    by (auto simp: releaseSavepoint_def Let_def js_splice1_nth TransactionState_inv_def
          list_all_take list_all_drop)
qed

lemma inv_rollback: "TransactionState_inv s \<Longrightarrow> TransactionState_inv (snd (rollback d s))"
  by (auto simp: rollback_def inv_cleanup split: prod.splits reply.splits)

lemma inv_commit: "TransactionState_inv s \<Longrightarrow> TransactionState_inv (snd (commit opts d s))"
  by (auto simp: commit_def inv_cleanup split: prod.splits reply.splits sum.splits
      dest!: conn_call_eqD)
    (metis conn_call_inv inv_rollback snd_conv)+

lemma inv_sleep [simp]: "TransactionState_inv ((sleep ms s)\<lparr>retryCount := k\<rparr>) = TransactionState_inv s"
  by (simp add: TransactionState_inv_def sleep_def)

lemma inv_executeWithRetry_loop:
  "\<forall>t. TransactionState_inv t \<longrightarrow> TransactionState_inv (snd (callback t)) \<Longrightarrow>
   TransactionState_inv s \<Longrightarrow>
   TransactionState_inv (snd (executeWithRetry_loop opts callback attempt lastError s))"
proof (induction opts callback attempt lastError s rule: executeWithRetry_loop.induct)
  case (1 opts callback attempt lastError s)
  note pres = "1.prems"(1) and pres1 = "1.prems"(2)
  show ?case
  proof (cases "attempt \<le> retry_limit opts")
    case False
    then show ?thesis using pres1
      by (subst executeWithRetry_loop.simps) (simp split: option.splits)
  next
    case True
    obtain r s1 where op: "callback s = (r, s1)" by (cases "callback s")
    have s1: "TransactionState_inv s1" using pres pres1 op
      by (metis snd_conv)
    show ?thesis
    proof (cases r)
      case (Inr v)
      then show ?thesis using True op s1
        by (subst executeWithRetry_loop.simps) simp
    next
      case (Inl err)
      show ?thesis
      proof (cases "isRetryableError err")
        case False
        then show ?thesis using True op s1 Inl
          by (subst executeWithRetry_loop.simps) simp
      next
        case retry: True
        show ?thesis
        proof (cases "attempt < retry_limit opts")
          case lt: True
          have "TransactionState_inv (snd (executeWithRetry_loop opts callback (attempt + 1) (Some err)
                  ((sleep (retry_delay opts) s1)\<lparr>retryCount := retryCount s1 + 1\<rparr>)))"
            using "1.IH"(1) [OF True op [symmetric] Inl] retry lt pres s1 by simp
          then show ?thesis using True op Inl retry lt
            by (subst executeWithRetry_loop.simps) simp
        next
          case nlt: False
          have "TransactionState_inv (snd (executeWithRetry_loop opts callback (attempt + 1) (Some err) s1))"
            using "1.IH"(2) [OF True op [symmetric] Inl] retry nlt pres s1 by simp
          then show ?thesis using True op Inl retry nlt
            by (subst executeWithRetry_loop.simps) simp
        qed
      qed
    qed
  qed
qed

lemma inv_executeWithRetry:
  "\<forall>t. TransactionState_inv t \<longrightarrow> TransactionState_inv (snd (callback t)) \<Longrightarrow>
   TransactionState_inv s \<Longrightarrow>
   TransactionState_inv (snd (executeWithRetry opts callback label s))"
  unfolding executeWithRetry_def by (rule inv_executeWithRetry_loop)

lemma inv_batch_try:
  "TransactionState_inv s \<Longrightarrow> TransactionState_inv (snd (batch_try d spo i callback s))"
proof -
  assume inv: "TransactionState_inv s"
  let ?nm = "''batch_'' @ string_of_nat i @ ''_'' @ string_of_nat (now s)"
  have c: "TransactionState_inv (snd (createSavepoint d ?nm None s))"
    using inv by (rule inv_createSavepoint)
  show ?thesis
    using inv c
    by (cases "createSavepoint d ?nm None s")
       (auto simp: batch_try_def split: prod.splits sum.splits reply.splits dest!: conn_call_eqD)
qed

lemma inv_executeBatch_loop:
  "TransactionState_inv s \<Longrightarrow>
   TransactionState_inv (snd (executeBatch_loop d spo soe i operations results s))"
proof (induction operations arbitrary: i results s)
  case Nil
  then show ?case by simp
next
  case (Cons callback rest)
  obtain r s1 where bt: "batch_try d spo i callback s = (r, s1)"
    by (cases "batch_try d spo i callback s")
  have s1: "TransactionState_inv s1"
    using inv_batch_try [OF Cons.prems, of d spo i callback] bt by simp
  have rb: "TransactionState_inv (snd (rollbackToSavepoint d nm s1))" for nm
    using s1 by (rule inv_rollbackToSavepoint)
  show ?case
  proof (cases r)
    case (Inr result)
    then show ?thesis using bt Cons.IH [OF s1] by (simp add: Let_def)
  next
    case (Inl err)
    show ?thesis
      using bt Inl Cons.IH [OF s1] s1 rb [of "name (last (savepoints s1))"]
      by (cases "rollbackToSavepoint d (name (last (savepoints s1))) s1")
         (auto simp: Let_def split: sum.splits)
  qed
qed

lemma inv_executeBatch:
  "TransactionState_inv s \<Longrightarrow>
   TransactionState_inv (snd (executeBatch opts d operations batchOptions s))"
proof -
  assume inv: "TransactionState_inv s"
  have b: "TransactionState_inv (snd (beginTransaction opts d s))"
    using inv by (rule inv_beginTransaction)
  show ?thesis
    using inv b
    by (cases "beginTransaction opts d s")
       (auto simp: executeBatch_def inv_executeBatch_loop split: sum.splits)
qed

lemmas tm_eval =
  beginTransaction_def createSavepoint_def new_TransactionManager_def world0_def
  default_options_def always_ok_def conn_call_def isValidSavepointName_def is_letter_def
  is_word_char_def setTransactionTimeout_def Let_def

lemma sp_scenario_eval:
  "sp_scenario =
     \<lparr>conn = (), sent = [Execute ''SAVEPOINT sp1'' None None, Execute ''SAVEPOINT sp2'' None None],
      now = 0,
      savepoints = [\<lparr>name = ''sp1'', timestamp = 0, description = None\<rparr>,
                    \<lparr>name = ''sp2'', timestamp = 0, description = None\<rparr>],
      transactionStartTime = Some 0, isTransactionActive = True, retryCount = 0\<rparr>"
  by (simp add: sp_scenario_def tm_eval)

lemma begun_eval:
  "begun = \<lparr>conn = (), sent = [], now = 0, savepoints = [], transactionStartTime = Some 0,
             isTransactionActive = True, retryCount = 0\<rparr>"
  by (simp add: begun_def tm_eval)

lemma deadlock_operation_eval:
  "deadlock_operation t =
     (Inl (Error ''ORA-00060: deadlock detected while waiting for resource''),
      t\<lparr>sent := sent t @ [Execute ''UPDATE accounts SET balance = 0'' None None]\<rparr>)"
  by (simp add: deadlock_operation_def run_statement_def conn_call_def deadlock_driver_def)

text \<open>
  C6. The invariant of the transaction state (distinct savepoint names that match the
  pattern; an inactive coordinator has no savepoint and no start time) holds for a new
  coordinator, and every public operation leaves it in force in the state it ends in,
  whether it returns or throws. The operation handed to \<open>executeWithRetry\<close> is a
  callback: it is assumed to preserve the invariant itself, as every use of the public
  interface does.
\<close>

theorem TransactionState_invariant:
  assumes "TransactionState_inv s"
    and "\<forall>t. TransactionState_inv t \<longrightarrow> TransactionState_inv (snd (callback t))"
  shows "TransactionState_inv (new_TransactionManager w)
    \<and> TransactionState_inv (snd (beginTransaction opts d s))
    \<and> TransactionState_inv (snd (createSavepoint d nm descr s))
    \<and> TransactionState_inv (snd (rollbackToSavepoint d nm s))
    \<and> TransactionState_inv (snd (releaseSavepoint nm s))
    \<and> TransactionState_inv (snd (commit opts d s))
    \<and> TransactionState_inv (snd (rollback d s))
    \<and> TransactionState_inv (snd (executeWithRetry opts callback label s))
    \<and> TransactionState_inv (snd (executeBatch opts d operations batchOptions s))"
  using assms
  by (simp add: inv_new inv_beginTransaction inv_createSavepoint inv_rollbackToSavepoint
      inv_releaseSavepoint inv_commit inv_rollback inv_executeWithRetry inv_executeBatch)

theorem TransactionState_invariant_witness:
  "TransactionState_inv sp_scenario
   \<and> TransactionState_inv (new_TransactionManager world0)
   \<and> TransactionState_inv (snd (beginTransaction default_options always_ok sp_scenario))
   \<and> TransactionState_inv (snd (createSavepoint always_ok ''sp3'' None sp_scenario))
   \<and> TransactionState_inv (snd (rollbackToSavepoint always_ok ''sp3'' sp_scenario))
   \<and> TransactionState_inv (snd (releaseSavepoint ''sp3'' sp_scenario))
   \<and> TransactionState_inv (snd (commit default_options always_ok sp_scenario))
   \<and> TransactionState_inv (snd (rollback always_ok sp_scenario))
   \<and> TransactionState_inv (snd (executeWithRetry default_options deadlock_operation ''x'' sp_scenario))
   \<and> TransactionState_inv (snd (executeBatch default_options always_ok
         [\<lparr>op_sql = ''DELETE FROM t'', op_binds = None, op_name = None\<rparr>]
         \<lparr>savepointPerOperation = Some True, stopOnError = None\<rparr> sp_scenario))"
proof -
  have i: "TransactionState_inv sp_scenario"
    by (simp add: sp_scenario_eval TransactionState_inv_def savepoint_name_pattern_def
        is_letter_def is_word_char_def)
  have p: "\<forall>t. TransactionState_inv t \<longrightarrow> TransactionState_inv (snd (deadlock_operation t))"
    by (simp add: deadlock_operation_eval TransactionState_inv_def)
  show ?thesis
    using i TransactionState_invariant [OF i p, of world0 default_options always_ok "''sp3''" None "''x''"
        "[\<lparr>op_sql = ''DELETE FROM t'', op_binds = None, op_name = None\<rparr>]"
        "\<lparr>savepointPerOperation = Some True, stopOnError = None\<rparr>"]
    by simp
qed

section \<open>Commit\<close>

lemma commit_not_active:
  "\<not> isTransactionActive t \<Longrightarrow>
   commit opts d t = (Inl (Error ''Nenhuma transacao ativa para commit''), t)"
  by (simp add: commit_def)

text \<open>
  C8. After a commit that succeeded, the coordinator is not active, and a second commit
  (against any driver) throws the error of an inactive coordinator and leaves the whole
  state, the log of calls sent included, as it was: no second commit reaches the
  connection. The same holds for a commit in any state that is not active.
\<close>

theorem commit_twice_not_active:
  assumes "commit opts d s = (Inr u, s1)"
  shows "\<not> isTransactionActive s1
    \<and> commit opts d' s1 = (Inl (Error ''Nenhuma transacao ativa para commit''), s1)
    \<and> sent (snd (commit opts d' s1)) = sent s1
    \<and> (\<forall>t. \<not> isTransactionActive t \<longrightarrow>
          commit opts d' t = (Inl (Error ''Nenhuma transacao ativa para commit''), t))"
proof -
  have "\<not> isTransactionActive s1"
    using assms
    by (auto simp: commit_def cleanupTransaction_def split: if_splits prod.splits reply.splits sum.splits)
  then show ?thesis by (simp add: commit_not_active)
qed

theorem commit_twice_not_active_witness:
  "fst (commit default_options always_ok begun) = Inr ()
   \<and> commit default_options always_ok (snd (commit default_options always_ok begun))
       = (Inl (Error ''Nenhuma transacao ativa para commit''),
          snd (commit default_options always_ok begun))
   \<and> sent (snd (commit default_options always_ok (snd (commit default_options always_ok begun))))
       = [Commit]"
proof -
  have c: "commit default_options always_ok begun
      = (Inr (), \<lparr>conn = (), sent = [Commit], now = 0, savepoints = [],
                  transactionStartTime = None, isTransactionActive = False, retryCount = 0\<rparr>)"
    by (simp add: begun_eval commit_def conn_call_def always_ok_def cleanupTransaction_def)
  show ?thesis
    using commit_twice_not_active [OF c, of always_ok] by (simp add: c)
qed

section \<open>Rollback to a savepoint\<close>

text \<open>
  C4. In an active transaction, rolling back to a savepoint that exists, when the
  connection accepts the statement, succeeds and leaves a prefix of the savepoint
  sequence: the names up to and including the target, everything after it dropped. In
  the scenario begin, savepoint sp1, savepoint sp2, rollback to sp1, what is left is
  sp1 alone.
\<close>

theorem rollbackToSavepoint_keeps_prefix:
  assumes "isTransactionActive s"
    and "nm \<in> set (map name (savepoints s))"
    and "fst (d (Execute (''ROLLBACK TO SAVEPOINT '' @ nm) None None) (conn s)) = Returns r"
  shows "fst (rollbackToSavepoint d nm s) = Inr ()
    \<and> prefix (savepoints (snd (rollbackToSavepoint d nm s))) (savepoints s)
    \<and> map name (savepoints (snd (rollbackToSavepoint d nm s)))
        = takeWhile (\<lambda>n. n \<noteq> nm) (map name (savepoints s)) @ [nm]"
proof -
  let ?k = "length (takeWhile (\<lambda>sp. name sp \<noteq> nm) (savepoints s))"
  obtain sp where f: "find (\<lambda>sp. name sp = nm) (savepoints s) = Some sp"
    using find_Some_name [OF assms(2)] by blast
  have ex: "\<exists>x\<in>set (savepoints s). name x = nm" using assms(2) by auto
  have k: "findIndex (\<lambda>sp. name sp = nm) (savepoints s) = int ?k"
    using ex by (simp add: findIndex_found)
  obtain c' where dr: "d (Execute (''ROLLBACK TO SAVEPOINT '' @ nm) None None) (conn s) = (Returns r, c')"
    using assms(3) by (cases "d (Execute (''ROLLBACK TO SAVEPOINT '' @ nm) None None) (conn s)") simp
  have res: "rollbackToSavepoint d nm s =
      (Inr (), s\<lparr>conn := c', sent := sent s @ [Execute (''ROLLBACK TO SAVEPOINT '' @ nm) None None],
                 savepoints := take (Suc ?k) (savepoints s)\<rparr>)"
    using assms(1) f dr k
    by (simp add: rollbackToSavepoint_def conn_call_def Let_def js_slice_take nat_add_distrib)
  have "map name (take (Suc ?k) (savepoints s))
      = takeWhile (\<lambda>n. n \<noteq> nm) (map name (savepoints s)) @ [nm]"
    using take_Suc_takeWhile [OF assms(2)]
    by (simp add: take_map takeWhile_map_name [symmetric] del: take_Suc_Cons)
  then show ?thesis
    by (simp add: res take_is_prefix)
qed

theorem rollbackToSavepoint_keeps_prefix_witness:
  "isTransactionActive sp_scenario
   \<and> map name (savepoints sp_scenario) = [''sp1'', ''sp2'']
   \<and> fst (rollbackToSavepoint always_ok ''sp1'' sp_scenario) = Inr ()
   \<and> map name (savepoints (snd (rollbackToSavepoint always_ok ''sp1'' sp_scenario))) = [''sp1'']"
  using rollbackToSavepoint_keeps_prefix [of sp_scenario "''sp1''" always_ok ok_result]
  by (simp add: sp_scenario_eval always_ok_def)

section \<open>Retrying\<close>

lemma loop_deadlock_step:
  assumes "callback s = (Inl err, s1)" and "isRetryableError err"
    and "attempt < retry_limit opts"
  shows "executeWithRetry_loop opts callback attempt lastError s
       = executeWithRetry_loop opts callback (attempt + 1) (Some err) (retry_pause opts s1)"
  using assms by (subst executeWithRetry_loop.simps) (simp add: retry_pause_def)

lemma loop_deadlock_last:
  assumes "callback s = (Inl err, s1)" and "isRetryableError err"
    and "attempt = retry_limit opts"
  shows "executeWithRetry_loop opts callback attempt lastError s = (Inl err, s1)"
proof -
  have "executeWithRetry_loop opts callback attempt lastError s
      = executeWithRetry_loop opts callback (attempt + 1) (Some err) s1"
    using assms by (subst executeWithRetry_loop.simps) simp
  also have "\<dots> = (Inl err, s1)"
    using assms(2,3) by (subst executeWithRetry_loop.simps) (cases err; simp add: isRetryableError_def)
  finally show ?thesis .
qed

lemma retryCount_retry_pause [simp]: "retryCount (retry_pause opts s) = retryCount s + 1"
  by (simp add: retry_pause_def)

text \<open>
  C5. With \<open>maxRetries = 3\<close> and an operation that throws a deadlock error at every
  call (and leaves the retry counter alone), \<open>executeWithRetry\<close> ends exactly as
  the third call of the operation ends, the first two calls each followed by one pause:
  three calls, the error thrown is the third call's own deadlock error, and the retry
  counter has grown by two.
\<close>

theorem executeWithRetry_always_deadlock:
  assumes "maxRetries opts = 3"
    and "\<forall>t. \<exists>m. fst (callback t) = Inl (Error m) \<and> js_includes m ''ORA-00060''"
    and "\<forall>t. retryCount (snd (callback t)) = retryCount t"
  shows "executeWithRetry opts callback label s
       = callback (retry_pause opts (snd (callback (retry_pause opts (snd (callback s))))))
    \<and> (\<exists>m. fst (executeWithRetry opts callback label s) = Inl (Error m) \<and> js_includes m ''ORA-00060'')
    \<and> retryCount (snd (executeWithRetry opts callback label s)) = retryCount s + 2"
proof -
  have lim: "retry_limit opts = 3" using assms(1) by (simp add: retry_limit_def)
  have retry: "isRetryableError e" if "fst (callback t) = Inl e" for t e
  proof -
    obtain m where "fst (callback t) = Inl (Error m)" "js_includes m ''ORA-00060''"
      using assms(2) by blast
    then have "e = Error m" "m \<noteq> []" using that by auto
    then show ?thesis by (simp add: isRetryableError_def retryableErrors_def)
  qed
  have shape: "\<exists>e. callback t = (Inl e, snd (callback t))" for t
    using assms(2) [rule_format, of t] by (cases "callback t") auto
  let ?s1 = "retry_pause opts (snd (callback s))"
  let ?s2 = "retry_pause opts (snd (callback ?s1))"
  obtain e1 where o1: "callback s = (Inl e1, snd (callback s))" using shape by blast
  obtain e2 where o2: "callback ?s1 = (Inl e2, snd (callback ?s1))" using shape by blast
  obtain e3 where o3: "callback ?s2 = (Inl e3, snd (callback ?s2))" using shape by blast
  have r1: "isRetryableError e1" using retry [of s e1] o1 by (metis fst_conv)
  have r2: "isRetryableError e2" using retry [of ?s1 e2] o2 by (metis fst_conv)
  have r3: "isRetryableError e3" using retry [of ?s2 e3] o3 by (metis fst_conv)
  have "executeWithRetry opts callback label s
      = executeWithRetry_loop opts callback 2 (Some e1) ?s1"
    unfolding executeWithRetry_def
    using loop_deadlock_step [where callback = callback and s = s and attempt = 1 and opts = opts and lastError = None, OF o1 r1] lim by simp
  also have "\<dots> = executeWithRetry_loop opts callback 3 (Some e2) ?s2"
    using loop_deadlock_step [where callback = callback and s = "?s1" and attempt = 2 and opts = opts and lastError = "Some e1", OF o2 r2] lim by simp
  also have "\<dots> = (Inl e3, snd (callback ?s2))"
    using loop_deadlock_last [where callback = callback and s = "?s2" and attempt = 3 and opts = opts and lastError = "Some e2", OF o3 r3] lim by simp
  finally have eq: "executeWithRetry opts callback label s = callback ?s2"
    using o3 by simp
  have cnt: "retryCount (snd (callback ?s2)) = retryCount s + 2"
    using assms(3) by simp
  show ?thesis
    using eq cnt assms(2) [rule_format, of ?s2] by simp
qed

theorem executeWithRetry_always_deadlock_witness:
  "fst (executeWithRetry default_options deadlock_operation ''x'' begun)
     = Inl (Error ''ORA-00060: deadlock detected while waiting for resource'')
   \<and> retryCount (snd (executeWithRetry default_options deadlock_operation ''x'' begun)) = 2
   \<and> sent (snd (executeWithRetry default_options deadlock_operation ''x'' begun))
       = [Execute ''UPDATE accounts SET balance = 0'' None None,
          Execute ''UPDATE accounts SET balance = 0'' None None,
          Execute ''UPDATE accounts SET balance = 0'' None None]"
proof -
  have m: "maxRetries default_options = 3" by (simp add: default_options_def)
  have a: "\<forall>t. \<exists>m. fst (deadlock_operation t) = Inl (Error m) \<and> js_includes m ''ORA-00060''"
    by (simp add: deadlock_operation_eval)
  have b: "\<forall>t. retryCount (snd (deadlock_operation t)) = retryCount t"
    by (simp add: deadlock_operation_eval)
  have "executeWithRetry default_options deadlock_operation ''x'' begun
      = deadlock_operation (retry_pause default_options (snd (deadlock_operation
          (retry_pause default_options (snd (deadlock_operation begun))))))"
    using executeWithRetry_always_deadlock [OF m a b, of "''x''" begun] by blast
  also have "\<dots> = (Inl (Error ''ORA-00060: deadlock detected while waiting for resource''),
      \<lparr>conn = (),
        sent = [Execute ''UPDATE accounts SET balance = 0'' None None,
                Execute ''UPDATE accounts SET balance = 0'' None None,
                Execute ''UPDATE accounts SET balance = 0'' None None],
        now = 2000, savepoints = [], transactionStartTime = Some 0,
        isTransactionActive = True, retryCount = 2\<rparr>)"
    by (simp add: deadlock_operation_eval retry_pause_def sleep_def begun_eval retry_delay_def
        default_options_def)
  finally show ?thesis by simp
qed

section \<open>Evaluating the bulk operations\<close>

lemmas bulk_eval =
  bulkInsert_def bulk_run_def batch_step_def bulk_finish_def batch_catch_def record_batchError_def
  validateDataStructure_def Object_keys_def Object_prototype_keys_def has_col_def get_col_def
  column_binds_def option_or_def
  js_slice_def clamp_index_def nth_opt_def conn_call_def tally0_def ok_result_def Let_def
  three_rows_def scenario_options_def row1_fails_def scripted_world_def

lemmas core_eval =
  core_bulkInsert_def core_batch_step_def named_binds_def core_finish_def core_batch_catch_def
  core_record_batchError_def Object_keys_def Object_prototype_keys_def get_col_def option_or_def
  js_slice_def clamp_index_def conn_call_def tally0_def ok_result_def Let_def
  three_rows_def scenario_options_def row1_fails_def scripted_world_def

lemma string_of_int_0: "string_of_int 0 = ''0''"
  by (simp add: string_of_int_def string_of_nat.simps char_of_def bit_simps)

text \<open>
  C1. The counts of a returned result should add up to the number of rows. In
  OracleDatabase.node.ts a batch for which the driver reports row errors adds the failed
  rows to \<open>totalErrors\<close> and nothing to \<open>totalSuccess\<close>: with three rows in batches of
  two and the row at offset 1 of the first batch failing, \<open>bulkInsert\<close> returns 1
  successful and 1 failed row for 3 rows. The \<open>bulkInsert\<close> of part\_003 counts the
  batch's other rows as successes and returns 2 and 1 at the same input.
\<close>

theorem bulkInsert_partial_batch_counts:
  "map_option fst (bulkInsert 1000 scripted ''T'' three_rows scenario_options (scripted_world row1_fails))
   = Some (Inr \<lparr>operation = ''INSERT'', totalRows = 3, successfulRows = 1, failedRows = 1,
                batchCount = 2, duration = 0,
                errors = [\<lparr>batchIndex = 0, rowIndex = 1,
                           error = Str ''ORA-00001: unique constraint violated'',
                           data = RowData (Some [(''a'', Num 2)])\<rparr>]\<rparr>)
   \<and> map_option fst (core_bulkInsert 1000 scripted ''T'' three_rows scenario_options
                        (scripted_world row1_fails))
   = Some (Inr \<lparr>success = False,
                result_data =
                  \<lparr>operation = ''INSERT'', totalRows = 3, successfulRows = 2, failedRows = 1,
                   batchCount = 2, duration = 0,
                   errors = [\<lparr>batchIndex = 0, rowIndex = 1,
                              error = Str ''ORA-00001: unique constraint violated'',
                              data = NoData\<rparr>]\<rparr>,
                result_message = ''Bulk insert completed: 2 succeeded, 1 failed in 0ms''\<rparr>)"
proof -
  have node: "map_option fst (bulkInsert 1000 scripted ''T'' three_rows scenario_options
                  (scripted_world row1_fails))
      = Some (Inr \<lparr>operation = ''INSERT'', totalRows = 3, successfulRows = 1, failedRows = 1,
                batchCount = 2, duration = 0,
                errors = [\<lparr>batchIndex = 0, rowIndex = 1,
                           error = Str ''ORA-00001: unique constraint violated'',
                           data = RowData (Some [(''a'', Num 2)])\<rparr>]\<rparr>)"
    by (simp add: bulk_eval batch_loop.simps)
  have core: "map_option fst (core_bulkInsert 1000 scripted ''T'' three_rows scenario_options
                  (scripted_world row1_fails))
      = Some (Inr \<lparr>success = False,
                result_data =
                  \<lparr>operation = ''INSERT'', totalRows = 3, successfulRows = 2, failedRows = 1,
                   batchCount = 2, duration = 0,
                   errors = [\<lparr>batchIndex = 0, rowIndex = 1,
                              error = Str ''ORA-00001: unique constraint violated'',
                              data = NoData\<rparr>]\<rparr>,
                result_message = ''Bulk insert completed: 2 succeeded, 1 failed in 0ms''\<rparr>)"
    by (simp add: core_eval batch_loop.simps string_of_int_def string_of_nat.simps char_of_def
        bit_simps)
  show ?thesis using node core by (rule conjI)
qed

section \<open>Empty input\<close>

lemma core_bulkInsert_empty:
  "core_bulkInsert defaultBatchSize d tableName [] options w = Some (Inr empty_ServiceResult, w)"
  by (simp add: core_bulkInsert_def core_finish_def batch_loop.simps tally0_def Let_def
      empty_ServiceResult_def string_of_int_0)

text \<open>
  C3, as stated, fails for the BulkOperations of part\_003: its \<open>bulkInsert\<close>, called
  with no rows, returns a result.
\<close>

theorem core_bulkInsert_empty_returns:
  "core_bulkInsert 1000 always_ok ''T'' [] no_options world0 = Some (Inr empty_ServiceResult, world0)"
  by (rule core_bulkInsert_empty)

text \<open>
  C3, amended. In OracleDatabase.node.ts, \<open>bulkInsert\<close>, \<open>bulkUpdate\<close> and
  \<open>bulkDelete\<close> called with no rows throw a validation error and leave the world as it
  was, so no statement is sent: the empty-dataset error, or for \<open>bulkUpdate\<close> and
  \<open>bulkDelete\<close> the error of the missing \<open>whereColumns\<close> when those are empty too,
  since that test comes first. In part\_003 the three operations have no such test: they
  send nothing and return a result whose counts are all 0.
\<close>

theorem empty_rows_rejected_or_returned:
  "bulkInsert defaultBatchSize d tableName [] options w
     = Some (Inl (Error ''Dados para insercao nao podem estar vazios''), w)
   \<and> bulkUpdate defaultBatchSize d tableName [] uoptions w
     = Some (Inl (Error (if whereColumns uoptions = []
                         then ''whereColumns deve ser especificado para bulk update''
                         else ''Dados para atualizacao nao podem estar vazios'')), w)
   \<and> bulkDelete defaultBatchSize d tableName [] uoptions w
     = Some (Inl (Error (if whereColumns uoptions = []
                         then ''whereColumns deve ser especificado para bulk delete''
                         else ''Dados para exclusao nao podem estar vazios'')), w)
   \<and> core_bulkInsert defaultBatchSize d tableName [] options w = Some (Inr empty_ServiceResult, w)
   \<and> core_bulkUpdate defaultBatchSize d tableName [] options w = Some (Inr empty_ServiceResult, w)
   \<and> core_bulkDelete defaultBatchSize d tableName [] options w = Some (Inr empty_ServiceResult, w)"
  by (simp add: bulkInsert_def bulkUpdate_def bulkDelete_def core_bulkUpdate_def
      core_bulkDelete_def core_bulkInsert_empty)

theorem empty_rows_rejected_or_returned_witness:
  "bulkInsert 1000 always_ok ''T'' [] no_options world0
     = Some (Inl (Error ''Dados para insercao nao podem estar vazios''), world0)
   \<and> core_bulkInsert 1000 always_ok ''T'' [] no_options world0
     = Some (Inr empty_ServiceResult, world0)"
  using empty_rows_rejected_or_returned [of 1000 always_ok "''T''" no_options world0]
  by simp

text \<open>
  C10. \<open>bulkUpsert\<close> with key columns and no rows throws the \<open>TypeError\<close> of
  \<open>Object.keys(undefined)\<close> and leaves the world as it was (nothing is sent), where
  \<open>bulkInsert\<close> throws its empty-dataset error.
\<close>

theorem bulkUpsert_empty_rows:
  assumes "keyColumns \<noteq> []"
  shows "bulkUpsert d tableName [] keyColumns options w
       = (Inl (TypeError ''Cannot convert undefined or null to object''), w)
    \<and> bulkInsert defaultBatchSize d tableName [] options w
       = Some (Inl (Error ''Dados para insercao nao podem estar vazios''), w)"
  using assms by (simp add: bulkUpsert_def bulkInsert_def)

theorem bulkUpsert_empty_rows_witness:
  "bulkUpsert always_ok ''T'' [] [''id''] no_options world0
       = (Inl (TypeError ''Cannot convert undefined or null to object''), world0)
    \<and> sent (snd (bulkUpsert always_ok ''T'' [] [''id''] no_options world0)) = []"
  using bulkUpsert_empty_rows [of "[''id'']" always_ok "''T''" no_options world0 1000]
  by (simp add: world0_def)

section \<open>The partition into batches\<close>




lemma executeMany_binds_append [simp]:
  "executeMany_binds (xs @ ys) = executeMany_binds xs @ executeMany_binds ys"
  by (simp add: executeMany_binds_def)

lemma executeMany_binds_simps [simp]:
  "executeMany_binds [] = []"
  "executeMany_binds (ExecuteMany sql bs opts # cs) = bs # executeMany_binds cs"
  "executeMany_binds (Commit # cs) = executeMany_binds cs"
  "executeMany_binds (Rollback # cs) = executeMany_binds cs"
  "executeMany_binds (Execute sql2 b2 o2 # cs) = executeMany_binds cs"
  by (simp_all add: executeMany_binds_def)


lemma batchCounter_foldl_record [simp]:
  "batchCounter (foldl (record_batchError i batch) acc bes) = batchCounter acc"
  by (induction bes arbitrary: acc) (simp_all add: record_batchError_def Let_def)

















lemma batchCounter_foldl_core_record [simp]:
  "batchCounter (foldl (core_record_batchError i) acc bes) = batchCounter acc"
  by (induction bes arbitrary: acc) (simp_all add: core_record_batchError_def)













section \<open>The two implementations of bulkInsert\<close>

text \<open>
  C9. The two implementations of \<open>bulkInsert\<close> should report the same counts, also for
  a batch with row errors. With three rows in batches of two and the row at offset 1 of
  the first batch failing, both return a result: the one of OracleDatabase.node.ts
  reports 1 successful row, the one of part\_003 reports 2 (1 failed row and 2 batches in
  both). The batch's rows that did not fail are missing from \<open>totalSuccess\<close> in
  OracleDatabase.node.ts.
\<close>

theorem bulkInsert_implementations_differ_on_row_errors:
  "map_option (map_sum id (\<lambda>r. (successfulRows r, failedRows r, batchCount r)) \<circ> fst)
     (bulkInsert 1000 scripted ''T'' three_rows scenario_options (scripted_world row1_fails))
     = Some (Inr (1, 1, 2))
   \<and> map_option (map_sum id (\<lambda>s. (successfulRows (result_data s), failedRows (result_data s),
                                    batchCount (result_data s))) \<circ> fst)
     (core_bulkInsert 1000 scripted ''T'' three_rows scenario_options (scripted_world row1_fails))
     = Some (Inr (2, 1, 2))"
proof -
  have node: "map_option (map_sum id (\<lambda>r. (successfulRows r, failedRows r, batchCount r)) \<circ> fst)
     (bulkInsert 1000 scripted ''T'' three_rows scenario_options (scripted_world row1_fails))
     = Some (Inr (1, 1, 2))"
    by (simp add: bulk_eval batch_loop.simps)
  have core: "map_option (map_sum id (\<lambda>s. (successfulRows (result_data s), failedRows (result_data s),
                                    batchCount (result_data s))) \<circ> fst)
     (core_bulkInsert 1000 scripted ''T'' three_rows scenario_options (scripted_world row1_fails))
     = Some (Inr (2, 1, 2))"
    by (simp add: core_eval batch_loop.simps)
  show ?thesis using node core by (rule conjI)
qed

end
